theory Spec2Isabelle
  imports Main "HOL-Library.Word"
begin

section \<open>The vault module \<open>heritage::vault\<close> (apps/contract/sources/vault.move)\<close>

subsection \<open>Values of the host\<close>

text \<open>
  Move's \<open>u64\<close> is a 64-bit word. An \<open>address\<close> and an object \<open>ID\<close> are 32 bytes.
  \<open>String\<close> is \<open>std::string::String\<close>.
\<close>

type_synonym u64 = "64 word"
type_synonym address = "256 word"
type_synonym ID = "256 word"
type_synonym String = string

text \<open>
  A transaction that does not finish aborts. \<open>Abort c\<close> is an \<open>assert!\<close> of the vault
  module failing with its error code \<open>c\<close>; \<open>Arithmetic_Error\<close> is the abort of Move's
  checked \<open>u64\<close> arithmetic; \<open>Balance_Not_Enough\<close> is the abort of
  \<open>sui::balance::split\<close> asked for more than the balance holds.
\<close>

datatype failure = Abort u64 | Arithmetic_Error | Balance_Not_Enough

definition ENotOwner :: u64 where
  "ENotOwner = 0"

definition ENotBeneficiary :: u64 where
  "ENotBeneficiary = 1"

definition EUnlockTimeNotReached :: u64 where
  "EUnlockTimeNotReached = 2"

definition EAlreadyClaimed :: u64 where
  "EAlreadyClaimed = 3"

definition EInvalidShares :: u64 where
  "EInvalidShares = 4"

text \<open>\<open>a + b\<close> on \<open>u64\<close>: Move aborts the transaction when the sum does not fit.\<close>

definition add_u64 :: "u64 \<Rightarrow> u64 \<Rightarrow> failure + u64" where
  "add_u64 a b = (if unat a + unat b < 2 ^ 64 then Inr (a + b) else Inl Arithmetic_Error)"

text \<open>
  \<open>sui::balance::split(&mut self, value)\<close>: the pair is the balance left in \<open>self\<close> and
  the balance split off.
\<close>

definition balance_split :: "u64 \<Rightarrow> u64 \<Rightarrow> failure + (u64 \<times> u64)" where
  "balance_split self v = (if v \<le> self then Inr (self - v, v) else Inl Balance_Not_Enough)"

text \<open>
  The clock gives the time in milliseconds. Of the transaction context the module uses
  the sender and \<open>object::new\<close>; \<open>new_uid\<close> is the identifier \<open>object::new(ctx)\<close> gives
  the vault that \<open>create_vault\<close> builds.
\<close>

record Clock =
  timestamp_ms :: u64

record TxContext =
  sender :: address
  new_uid :: ID

subsection \<open>Events, the vault, effects\<close>

text \<open>
  The four event structs, fields in the order of the source:
  \<open>LegacyClaimed {beneficiary, blob_id, shares, amount}\<close>,
  \<open>VaultCreated {vault_id, owner, beneficiary, unlock_time_ms}\<close>,
  \<open>VaultCancelled {vault_id, owner, amount}\<close>,
  \<open>HeartbeatUpdated {vault_id, timestamp}\<close>.
\<close>

datatype event =
  LegacyClaimed address String "String list" u64
| VaultCreated ID address address u64
| VaultCancelled ID address u64
| HeartbeatUpdated ID u64

text \<open>
  \<open>LegacyBox\<close>. The field \<open>id: UID\<close> is \<open>uid\<close> here; \<open>balance: Balance<SUI>\<close> is the
  \<open>u64\<close> value that the balance holds.
\<close>

record LegacyBox =
  uid :: ID
  owner :: address
  beneficiary :: address
  unlock_time_ms :: u64
  last_heartbeat :: u64
  encrypted_blob_id :: String
  locked_shares :: "String list"
  balance :: u64

text \<open>
  What a transaction leaves behind besides the vault: the events it emitted, in order,
  and the coins it sent with \<open>transfer::public_transfer\<close>, each as the pair of the coin's
  value and the recipient.
\<close>

record effects =
  events :: "event list"
  transfers :: "(u64 \<times> address) list"

subsection \<open>Entry functions\<close>

text \<open>
  \<open>create_vault\<close>. The coin is given by its value (\<open>coin::into_balance\<close>). The vault
  returned is the object handed to \<open>transfer::share_object\<close>.
\<close>

definition create_vault ::
  "address \<Rightarrow> u64 \<Rightarrow> String \<Rightarrow> String \<Rightarrow> String \<Rightarrow> String \<Rightarrow> u64 \<Rightarrow> Clock \<Rightarrow> TxContext
    \<Rightarrow> failure + (LegacyBox \<times> effects)" where
  "create_vault beneficiary' unlock_time_ms' blob_id share_3 share_4 share_5 coin clock ctx =
     (let owner' = sender ctx;
          current_time = timestamp_ms clock;
          locked_shares' = (([] @ [share_3]) @ [share_4]) @ [share_5];
          vault = \<lparr> uid = new_uid ctx,
                    owner = owner',
                    beneficiary = beneficiary',
                    unlock_time_ms = unlock_time_ms',
                    last_heartbeat = current_time,
                    encrypted_blob_id = blob_id,
                    locked_shares = locked_shares',
                    balance = coin \<rparr>;
          vault_id = uid vault
      in Inr (vault,
              \<lparr> events = [VaultCreated vault_id owner' beneficiary' unlock_time_ms'],
                transfers = [] \<rparr>))"

definition im_alive :: "LegacyBox \<Rightarrow> Clock \<Rightarrow> TxContext \<Rightarrow> failure + (LegacyBox \<times> effects)" where
  "im_alive vault clock ctx =
     (if sender ctx \<noteq> owner vault then Inl (Abort ENotOwner)
      else
        let current_time = timestamp_ms clock;
            vault' = vault\<lparr>last_heartbeat := current_time\<rparr>
        in Inr (vault',
                \<lparr> events = [HeartbeatUpdated (uid vault') current_time], transfers = [] \<rparr>))"

definition claim_legacy :: "LegacyBox \<Rightarrow> Clock \<Rightarrow> TxContext \<Rightarrow> failure + (LegacyBox \<times> effects)" where
  "claim_legacy vault clock ctx =
     (let sender' = sender ctx in
      if sender' \<noteq> beneficiary vault then Inl (Abort ENotBeneficiary)
      else
        let current_time = timestamp_ms clock in
        case add_u64 (last_heartbeat vault) (unlock_time_ms vault) of
          Inl e \<Rightarrow> Inl e
        | Inr unlock_at \<Rightarrow>
            if \<not> unlock_at < current_time then Inl (Abort EUnlockTimeNotReached)
            else
              let amount = balance vault in
              (case (if 0 < amount
                     then (case balance_split (balance vault) amount of
                             Inl e \<Rightarrow> Inl e
                           | Inr (rest, payment) \<Rightarrow>
                               Inr (vault\<lparr>balance := rest\<rparr>, [(payment, sender')]))
                     else Inr (vault, [])) of
                 Inl e \<Rightarrow> Inl e
               | Inr (vault', sent) \<Rightarrow>
                   Inr (vault',
                        \<lparr> events = [LegacyClaimed sender' (encrypted_blob_id vault')
                                      (locked_shares vault') amount],
                          transfers = sent \<rparr>)))"

text \<open>
  \<open>cancel_legacy\<close> takes the vault by value and deletes it: on success there is no vault
  any more, only the effects.
\<close>

definition cancel_legacy :: "LegacyBox \<Rightarrow> TxContext \<Rightarrow> failure + effects" where
  "cancel_legacy vault ctx =
     (let sender' = sender ctx;
          vault_id = uid vault
      in if sender' \<noteq> owner vault then Inl (Abort ENotOwner)
         else
           let amount = balance vault
           in Inr \<lparr> events = [VaultCancelled vault_id (owner vault) amount],
                    transfers = (if 0 < amount then [(amount, sender')] else []) \<rparr>)"

subsection \<open>View functions\<close>

definition can_claim :: "LegacyBox \<Rightarrow> Clock \<Rightarrow> failure + bool" where
  "can_claim vault clock =
     (let current_time = timestamp_ms clock in
      case add_u64 (last_heartbeat vault) (unlock_time_ms vault) of
        Inl e \<Rightarrow> Inl e
      | Inr unlock_at \<Rightarrow> Inr (unlock_at < current_time))"

definition time_until_claim :: "LegacyBox \<Rightarrow> Clock \<Rightarrow> failure + u64" where
  "time_until_claim vault clock =
     (let current_time = timestamp_ms clock in
      case add_u64 (last_heartbeat vault) (unlock_time_ms vault) of
        Inl e \<Rightarrow> Inl e
      | Inr unlock_at \<Rightarrow>
          if unlock_at \<le> current_time then Inr 0 else Inr (unlock_at - current_time))"

subsection \<open>The vault a transaction leaves in the ledger\<close>

text \<open>
  \<open>im_alive\<close> and \<open>claim_legacy\<close> borrow the shared vault mutably. When the call aborts
  the transaction is reverted, and the vault stored in the ledger is the one from before
  the call, with no effect; otherwise it is the vault the call returns.
\<close>

definition vault_after :: "LegacyBox \<Rightarrow> failure + (LegacyBox \<times> effects) \<Rightarrow> LegacyBox" where
  "vault_after vault r = (case r of Inl e \<Rightarrow> vault | Inr (vault', eff) \<Rightarrow> vault')"

definition effects_of :: "failure + (LegacyBox \<times> effects) \<Rightarrow> effects" where
  "effects_of r = (case r of Inl e \<Rightarrow> \<lparr> events = [], transfers = [] \<rparr> | Inr (vault', eff) \<Rightarrow> eff)"

section \<open>The cryptography engine (apps/web/src/utils/crypto-engine.ts)\<close>

text \<open>A JavaScript \<open>Error\<close> with its message; a thrown error is \<open>Inl\<close>.\<close>

datatype js_error = Error string


subsection \<open>Symmetric encryption of the payload\<close>







subsection \<open>Key recovery\<close>

text \<open>
  \<open>recoverKey\<close> calls \<open>secrets.combine\<close> and \<open>secrets.hex2str\<close> of the library
  secrets.js-grempe; they are parameters here, and each may throw.
\<close>

definition recoverKey ::
  "(string list \<Rightarrow> js_error + string) \<Rightarrow> (string \<Rightarrow> js_error + string) \<Rightarrow> string list
    \<Rightarrow> js_error + string" where
  "recoverKey secrets_combine secrets_hex2str shares =
     (if length shares < 3 then Inl (Error ''Minimum 3 shares required to recover key'')
      else case secrets_combine shares of
             Inl e \<Rightarrow> Inl e
           | Inr hexKey \<Rightarrow> secrets_hex2str hexKey)"

section \<open>Example vaults\<close>

text \<open>
  The vault of the module's tests: owner \<open>@0xA\<close>, beneficiary \<open>@0xB\<close>, created at time
  1000 with one day (86400000 ms) of unlock time and a deposit of 1 SUI.
\<close>

definition test_vault :: LegacyBox where
  "test_vault =
     \<lparr> uid = 1, owner = 0xA, beneficiary = 0xB, unlock_time_ms = 86400000,
       last_heartbeat = 1000, encrypted_blob_id = ''blob_id'',
       locked_shares = [''share_3'', ''share_4'', ''share_5''], balance = 1000000000 \<rparr>"

text \<open>The same vault after the beneficiary has claimed it: the balance is 0.\<close>

definition claimed_vault :: LegacyBox where
  "claimed_vault =
     \<lparr> uid = 1, owner = 0xA, beneficiary = 0xB, unlock_time_ms = 86400000,
       last_heartbeat = 1000, encrypted_blob_id = ''blob_id'',
       locked_shares = [''share_3'', ''share_4'', ''share_5''], balance = 0 \<rparr>"

text \<open>A vault created at time 1000 with the largest unlock time a \<open>u64\<close> holds.\<close>

definition never_vault :: LegacyBox where
  "never_vault =
     \<lparr> uid = 1, owner = 0xA, beneficiary = 0xB, unlock_time_ms = 0xFFFFFFFFFFFFFFFF,
       last_heartbeat = 1000, encrypted_blob_id = ''blob_id'',
       locked_shares = [''share_3'', ''share_4'', ''share_5''], balance = 1000000000 \<rparr>"

text \<open>A vault created at time 1000 with unlock time 0.\<close>

definition instant_vault :: LegacyBox where
  "instant_vault =
     \<lparr> uid = 1, owner = 0xA, beneficiary = 0xB, unlock_time_ms = 0,
       last_heartbeat = 1000, encrypted_blob_id = ''blob_id'',
       locked_shares = [''share_3'', ''share_4'', ''share_5''], balance = 1000000000 \<rparr>"

section \<open>An example library\<close>



section \<open>Arithmetic of \<open>u64\<close>\<close>

lemma add_u64_fits:
  "unat a + unat b < 2 ^ 64 \<Longrightarrow> add_u64 a b = Inr (a + b) \<and> unat (a + b) = unat a + unat b"
proof -
  assume h: "unat a + unat b < 2 ^ 64"
  have "unat (a + b) = unat a + unat b"
    using h unat_add_lem [of a b] by simp
  then show ?thesis
    using h by (simp add: add_u64_def)
qed

lemma add_u64_overflows:
  "\<not> unat a + unat b < 2 ^ 64 \<Longrightarrow> add_u64 a b = Inl Arithmetic_Error"
  by (simp add: add_u64_def)

lemma can_claim_fits:
  assumes "unat (last_heartbeat vault) + unat (unlock_time_ms vault) < 2 ^ 64"
  shows "can_claim vault clock =
           Inr (unat (last_heartbeat vault) + unat (unlock_time_ms vault)
                  < unat (timestamp_ms clock))"
  using add_u64_fits [OF assms] by (simp add: can_claim_def word_less_nat_alt)

lemma clock_bound: "unat (timestamp_ms clock) < 2 ^ 64"
  using unsigned_less [of "timestamp_ms clock"] by simp

lemma time_until_claim_fits:
  assumes "unat (last_heartbeat vault) + unat (unlock_time_ms vault) < 2 ^ 64"
  shows "\<exists>w. time_until_claim vault clock = Inr w \<and>
           unat w = unat (last_heartbeat vault) + unat (unlock_time_ms vault)
                      - unat (timestamp_ms clock)"
proof -
  define unlock_at where "unlock_at = last_heartbeat vault + unlock_time_ms vault"
  define now where "now = timestamp_ms clock"
  have sum: "add_u64 (last_heartbeat vault) (unlock_time_ms vault) = Inr unlock_at"
    and val: "unat unlock_at = unat (last_heartbeat vault) + unat (unlock_time_ms vault)"
    using add_u64_fits [OF assms] by (simp_all add: unlock_at_def)
  have tu: "time_until_claim vault clock =
              (if unlock_at \<le> now then Inr 0 else Inr (unlock_at - now))"
    by (simp add: time_until_claim_def sum now_def)
  show ?thesis
  proof (cases "unlock_at \<le> now")
    case True
    then have "unat unlock_at \<le> unat now"
      by (simp add: word_le_nat_alt)
    then show ?thesis
      using True tu val by (simp add: now_def)
  next
    case False
    then have "now \<le> unlock_at"
      by simp
    then have "unat (unlock_at - now) = unat unlock_at - unat now"
      by (rule unat_sub)
    then show ?thesis
      using False tu val by (simp add: now_def)
  qed
qed

section \<open>Bytes and characters of the example library\<close>






section \<open>The heartbeat\<close>

text \<open>
  C6. \<open>im_alive\<close> called by the owner sets \<open>last_heartbeat\<close> to the clock's time, changes
  no other field and emits \<open>HeartbeatUpdated\<close> with the vault's id and that time. Called by
  anyone else it aborts with \<open>ENotOwner\<close>: the vault stays as it was and nothing is
  emitted.
\<close>

theorem im_alive_owner_only:
  "(sender ctx = owner vault \<longrightarrow>
      im_alive vault clock ctx =
        Inr (vault\<lparr>last_heartbeat := timestamp_ms clock\<rparr>,
             \<lparr> events = [HeartbeatUpdated (uid vault) (timestamp_ms clock)],
               transfers = [] \<rparr>))
   \<and> (sender ctx \<noteq> owner vault \<longrightarrow>
      im_alive vault clock ctx = Inl (Abort ENotOwner)
      \<and> vault_after vault (im_alive vault clock ctx) = vault
      \<and> effects_of (im_alive vault clock ctx) = \<lparr> events = [], transfers = [] \<rparr>)"
  by (simp add: im_alive_def vault_after_def effects_of_def Let_def)

text \<open>
  The heartbeat of the tests at time 50000: by the owner \<open>@0xA\<close>, and by the stranger
  \<open>@0xC\<close>, whose call aborts with code 0 and leaves \<open>last_heartbeat\<close> at 1000.
\<close>

theorem im_alive_owner_only_witness:
  "im_alive test_vault \<lparr>timestamp_ms = 50000\<rparr> \<lparr>sender = 0xA, new_uid = 0\<rparr> =
     Inr (test_vault\<lparr>last_heartbeat := 50000\<rparr>,
          \<lparr> events = [HeartbeatUpdated 1 50000], transfers = [] \<rparr>)
   \<and> im_alive test_vault \<lparr>timestamp_ms = 50000\<rparr> \<lparr>sender = 0xC, new_uid = 0\<rparr> =
       Inl (Abort 0)
   \<and> last_heartbeat (vault_after test_vault
        (im_alive test_vault \<lparr>timestamp_ms = 50000\<rparr> \<lparr>sender = 0xC, new_uid = 0\<rparr>)) = 1000"
  using im_alive_owner_only
          [of "\<lparr>sender = 0xA, new_uid = 0\<rparr>" test_vault "\<lparr>timestamp_ms = 50000\<rparr>"]
        im_alive_owner_only
          [of "\<lparr>sender = 0xC, new_uid = 0\<rparr>" test_vault "\<lparr>timestamp_ms = 50000\<rparr>"]
  by (simp add: test_vault_def ENotOwner_def vault_after_def)

section \<open>The claim\<close>

text \<open>
  C5. When the beneficiary calls \<open>claim_legacy\<close> at a time after
  \<open>last_heartbeat + unlock_time_ms\<close>, the call succeeds: the vault's balance becomes 0 and
  nothing else in the vault changes, the whole balance is sent to the beneficiary in one
  coin (no coin is sent when the balance is 0), and \<open>LegacyClaimed\<close> carries the blob id,
  the locked shares and the amount.
\<close>

theorem claim_legacy_success:
  assumes "sender ctx = beneficiary vault"
    and "unat (last_heartbeat vault) + unat (unlock_time_ms vault) < unat (timestamp_ms clock)"
  shows "claim_legacy vault clock ctx =
     Inr (vault\<lparr>balance := 0\<rparr>,
          \<lparr> events = [LegacyClaimed (beneficiary vault) (encrypted_blob_id vault)
                        (locked_shares vault) (balance vault)],
            transfers =
              (if 0 < balance vault then [(balance vault, beneficiary vault)] else []) \<rparr>)"
proof -
  have fits: "unat (last_heartbeat vault) + unat (unlock_time_ms vault) < 2 ^ 64"
    using assms(2) clock_bound [of clock] by linarith
  note sum = add_u64_fits [OF fits]
  have guard: "last_heartbeat vault + unlock_time_ms vault < timestamp_ms clock"
    using assms(2) sum by (simp add: word_less_nat_alt)
  have zero: "\<not> 0 < balance vault \<Longrightarrow> vault\<lparr>balance := 0\<rparr> = vault"
    by (simp add: word_neq_0_conv [symmetric])
  show ?thesis
    using assms(1) sum guard zero
    by (simp add: claim_legacy_def balance_split_def Let_def)
qed

text \<open>
  The successful claim of the tests, one millisecond after the unlock time, and a claim
  of a vault whose balance is 0.
\<close>

theorem claim_legacy_success_witness:
  "claim_legacy test_vault \<lparr>timestamp_ms = 86401001\<rparr> \<lparr>sender = 0xB, new_uid = 0\<rparr> =
     Inr (test_vault\<lparr>balance := 0\<rparr>,
          \<lparr> events = [LegacyClaimed 0xB ''blob_id'' [''share_3'', ''share_4'', ''share_5'']
                        1000000000],
            transfers = [(1000000000, 0xB)] \<rparr>)
   \<and> claim_legacy claimed_vault \<lparr>timestamp_ms = 86401001\<rparr> \<lparr>sender = 0xB, new_uid = 0\<rparr> =
     Inr (claimed_vault,
          \<lparr> events = [LegacyClaimed 0xB ''blob_id'' [''share_3'', ''share_4'', ''share_5''] 0],
            transfers = [] \<rparr>)"
  using claim_legacy_success
          [of "\<lparr>sender = 0xB, new_uid = 0\<rparr>" test_vault "\<lparr>timestamp_ms = 86401001\<rparr>"]
        claim_legacy_success
          [of "\<lparr>sender = 0xB, new_uid = 0\<rparr>" claimed_vault "\<lparr>timestamp_ms = 86401001\<rparr>"]
  by (simp add: test_vault_def claimed_vault_def)

text \<open>
  C4, as the code has it. \<open>claim_legacy\<close> called by anyone but the beneficiary aborts
  with \<open>ENotBeneficiary\<close>, at any time. Called by the beneficiary at a time not after
  \<open>last_heartbeat + unlock_time_ms\<close> it aborts as well: with \<open>EUnlockTimeNotReached\<close>
  when that sum fits in a \<open>u64\<close>, and in the checked addition itself when it does not. In
  each of these cases the vault, its balance included, stays as it was and nothing is sent
  or emitted.
\<close>

theorem claim_legacy_rejected:
  "(sender ctx \<noteq> beneficiary vault \<longrightarrow>
      claim_legacy vault clock ctx = Inl (Abort ENotBeneficiary))
   \<and> (sender ctx = beneficiary vault
        \<and> unat (timestamp_ms clock) \<le> unat (last_heartbeat vault) + unat (unlock_time_ms vault) \<longrightarrow>
      claim_legacy vault clock ctx =
        (if unat (last_heartbeat vault) + unat (unlock_time_ms vault) < 2 ^ 64
         then Inl (Abort EUnlockTimeNotReached) else Inl Arithmetic_Error))
   \<and> (sender ctx \<noteq> beneficiary vault
        \<or> unat (timestamp_ms clock) \<le> unat (last_heartbeat vault) + unat (unlock_time_ms vault) \<longrightarrow>
      vault_after vault (claim_legacy vault clock ctx) = vault
      \<and> effects_of (claim_legacy vault clock ctx) = \<lparr> events = [], transfers = [] \<rparr>)"
proof -
  have stranger: "claim_legacy vault clock ctx = Inl (Abort ENotBeneficiary)"
    if "sender ctx \<noteq> beneficiary vault"
    using that by (simp add: claim_legacy_def Let_def)
  have early: "claim_legacy vault clock ctx =
        (if unat (last_heartbeat vault) + unat (unlock_time_ms vault) < 2 ^ 64
         then Inl (Abort EUnlockTimeNotReached) else Inl Arithmetic_Error)"
    if who: "sender ctx = beneficiary vault"
      and early: "unat (timestamp_ms clock) \<le> unat (last_heartbeat vault) + unat (unlock_time_ms vault)"
  proof (cases "unat (last_heartbeat vault) + unat (unlock_time_ms vault) < 2 ^ 64")
    case True
    note sum = add_u64_fits [OF True]
    have "\<not> last_heartbeat vault + unlock_time_ms vault < timestamp_ms clock"
      using early sum by (simp add: word_less_nat_alt)
    then show ?thesis
      using who sum True by (simp add: claim_legacy_def Let_def)
  next
    case False
    then show ?thesis
      using who add_u64_overflows [OF False] by (simp add: claim_legacy_def Let_def)
  qed
  have failed: "\<exists>e. claim_legacy vault clock ctx = Inl e"
    if "sender ctx \<noteq> beneficiary vault
        \<or> unat (timestamp_ms clock) \<le> unat (last_heartbeat vault) + unat (unlock_time_ms vault)"
    using that stranger early by (cases "sender ctx = beneficiary vault") auto
  have kept: "vault_after vault (claim_legacy vault clock ctx) = vault
      \<and> effects_of (claim_legacy vault clock ctx) = \<lparr> events = [], transfers = [] \<rparr>"
    if "sender ctx \<noteq> beneficiary vault
        \<or> unat (timestamp_ms clock) \<le> unat (last_heartbeat vault) + unat (unlock_time_ms vault)"
    using failed [OF that] by (auto simp add: vault_after_def effects_of_def)
  show ?thesis
    using stranger early kept by blast
qed

text \<open>
  The rejected claims of the tests: the stranger \<open>@0xC\<close> after the unlock time (code 1),
  the beneficiary at time 2000 and at the boundary instant 86401000 (code 2); and the
  beneficiary of the vault whose unlock time overflows the sum.
\<close>

theorem claim_legacy_rejected_witness:
  "claim_legacy test_vault \<lparr>timestamp_ms = 86401001\<rparr> \<lparr>sender = 0xC, new_uid = 0\<rparr> = Inl (Abort 1)
   \<and> claim_legacy test_vault \<lparr>timestamp_ms = 2000\<rparr> \<lparr>sender = 0xB, new_uid = 0\<rparr> = Inl (Abort 2)
   \<and> claim_legacy test_vault \<lparr>timestamp_ms = 86401000\<rparr> \<lparr>sender = 0xB, new_uid = 0\<rparr> = Inl (Abort 2)
   \<and> claim_legacy never_vault \<lparr>timestamp_ms = 2000\<rparr> \<lparr>sender = 0xB, new_uid = 0\<rparr> = Inl Arithmetic_Error
   \<and> balance (vault_after test_vault
        (claim_legacy test_vault \<lparr>timestamp_ms = 2000\<rparr> \<lparr>sender = 0xB, new_uid = 0\<rparr>)) = 1000000000"
  using claim_legacy_rejected
          [of "\<lparr>sender = 0xC, new_uid = 0\<rparr>" test_vault "\<lparr>timestamp_ms = 86401001\<rparr>"]
        claim_legacy_rejected
          [of "\<lparr>sender = 0xB, new_uid = 0\<rparr>" test_vault "\<lparr>timestamp_ms = 2000\<rparr>"]
        claim_legacy_rejected
          [of "\<lparr>sender = 0xB, new_uid = 0\<rparr>" test_vault "\<lparr>timestamp_ms = 86401000\<rparr>"]
        claim_legacy_rejected
          [of "\<lparr>sender = 0xB, new_uid = 0\<rparr>" never_vault "\<lparr>timestamp_ms = 2000\<rparr>"]
  by (simp add: test_vault_def never_vault_def ENotBeneficiary_def EUnlockTimeNotReached_def
        vault_after_def)

text \<open>
  C4 as it is written asks for \<open>EUnlockTimeNotReached\<close> whenever the beneficiary claims
  at a time not after \<open>last_heartbeat + unlock_time_ms\<close>. For the vault with unlock time
  \<open>2^64 - 1\<close> and the time 2000 the call aborts in the addition instead.
\<close>

theorem claim_legacy_counterexample:
  "sender \<lparr>sender = 0xB, new_uid = 0\<rparr> = beneficiary never_vault
   \<and> unat (timestamp_ms \<lparr>timestamp_ms = 2000\<rparr>)
        \<le> unat (last_heartbeat never_vault) + unat (unlock_time_ms never_vault)
   \<and> claim_legacy never_vault \<lparr>timestamp_ms = 2000\<rparr> \<lparr>sender = 0xB, new_uid = 0\<rparr>
        = Inl Arithmetic_Error
   \<and> claim_legacy never_vault \<lparr>timestamp_ms = 2000\<rparr> \<lparr>sender = 0xB, new_uid = 0\<rparr>
        \<noteq> Inl (Abort EUnlockTimeNotReached)"
  by (simp add: never_vault_def claim_legacy_def add_u64_def)

section \<open>When a vault can be claimed\<close>

text \<open>
  C3, as the code has it. A vault made by \<open>create_vault\<close> has \<open>last_heartbeat\<close> equal to
  the time of creation. When \<open>last_heartbeat + unlock_time_ms\<close> fits in a \<open>u64\<close>,
  \<open>can_claim\<close> returns exactly whether the time is greater than that sum: false up to and
  at the boundary instant, true from one millisecond later. When the sum does not fit,
  \<open>can_claim\<close> aborts in the checked addition.
\<close>

theorem can_claim_fresh_vault:
  assumes "create_vault b u blob s3 s4 s5 coin created ctx = Inr (vault, eff)"
  shows "last_heartbeat vault = timestamp_ms created \<and> unlock_time_ms vault = u
    \<and> can_claim vault clock =
         (if unat (last_heartbeat vault) + unat (unlock_time_ms vault) < 2 ^ 64
          then Inr (unat (last_heartbeat vault) + unat (unlock_time_ms vault)
                      < unat (timestamp_ms clock))
          else Inl Arithmetic_Error)
    \<and> (unat (last_heartbeat vault) + unat (unlock_time_ms vault) < 2 ^ 64
         \<and> unat (timestamp_ms clock) \<le> unat (last_heartbeat vault) + unat (unlock_time_ms vault)
         \<longrightarrow> can_claim vault clock = Inr False)
    \<and> (unat (timestamp_ms clock) = unat (last_heartbeat vault) + unat (unlock_time_ms vault) + 1
         \<longrightarrow> can_claim vault clock = Inr True)"
proof -
  have fresh: "last_heartbeat vault = timestamp_ms created \<and> unlock_time_ms vault = u"
    using assms by (auto simp add: create_vault_def Let_def)
  have exact: "can_claim vault clock =
           (if unat (last_heartbeat vault) + unat (unlock_time_ms vault) < 2 ^ 64
            then Inr (unat (last_heartbeat vault) + unat (unlock_time_ms vault)
                        < unat (timestamp_ms clock))
            else Inl Arithmetic_Error)"
    using can_claim_fits [of vault clock]
      add_u64_overflows [of "last_heartbeat vault" "unlock_time_ms vault"]
    by (simp add: can_claim_def)
  have locked: "can_claim vault clock = Inr False"
    if "unat (last_heartbeat vault) + unat (unlock_time_ms vault) < 2 ^ 64"
      and "unat (timestamp_ms clock) \<le> unat (last_heartbeat vault) + unat (unlock_time_ms vault)"
    using that by (simp add: exact)
  have "can_claim vault clock = Inr True"
    if "unat (timestamp_ms clock) = unat (last_heartbeat vault) + unat (unlock_time_ms vault) + 1"
    using that clock_bound [of clock] by (simp add: exact)
  with fresh exact locked show ?thesis by blast
qed

text \<open>
  The vault of the tests: not claimable at its creation nor at the boundary instant
  86401000, claimable at 86401001.
\<close>

theorem can_claim_fresh_vault_witness:
  "create_vault 0xB 86400000 ''blob_id'' ''share_3'' ''share_4'' ''share_5'' 1000000000
     \<lparr>timestamp_ms = 1000\<rparr> \<lparr>sender = 0xA, new_uid = 1\<rparr>
     = Inr (test_vault, \<lparr> events = [VaultCreated 1 0xA 0xB 86400000], transfers = [] \<rparr>)
   \<and> last_heartbeat test_vault = 1000
   \<and> can_claim test_vault \<lparr>timestamp_ms = 1000\<rparr> = Inr False
   \<and> can_claim test_vault \<lparr>timestamp_ms = 86401000\<rparr> = Inr False
   \<and> can_claim test_vault \<lparr>timestamp_ms = 86401001\<rparr> = Inr True"
proof -
  have made: "create_vault 0xB 86400000 ''blob_id'' ''share_3'' ''share_4'' ''share_5'' 1000000000
     \<lparr>timestamp_ms = 1000\<rparr> \<lparr>sender = 0xA, new_uid = 1\<rparr>
     = Inr (test_vault, \<lparr> events = [VaultCreated 1 0xA 0xB 86400000], transfers = [] \<rparr>)"
    by (simp add: create_vault_def test_vault_def)
  show ?thesis
    using made
      can_claim_fresh_vault [OF made, of "\<lparr>timestamp_ms = 1000\<rparr>"]
      can_claim_fresh_vault [OF made, of "\<lparr>timestamp_ms = 86401000\<rparr>"]
      can_claim_fresh_vault [OF made, of "\<lparr>timestamp_ms = 86401001\<rparr>"]
    by simp
qed

text \<open>
  C3 as it is written asks \<open>can_claim\<close> to be false at every time up to
  \<open>last_heartbeat + unlock_time_ms\<close>. A vault created at time 1000 with unlock time
  \<open>2^64 - 1\<close> makes \<open>can_claim\<close> abort at time 2000 rather than return false.
\<close>

theorem can_claim_counterexample:
  "create_vault 0xB 0xFFFFFFFFFFFFFFFF ''blob_id'' ''share_3'' ''share_4'' ''share_5'' 1000000000
     \<lparr>timestamp_ms = 1000\<rparr> \<lparr>sender = 0xA, new_uid = 1\<rparr>
     = Inr (never_vault, \<lparr> events = [VaultCreated 1 0xA 0xB 0xFFFFFFFFFFFFFFFF], transfers = [] \<rparr>)
   \<and> unat (2000 :: u64) \<le> unat (last_heartbeat never_vault) + unat (unlock_time_ms never_vault)
   \<and> can_claim never_vault \<lparr>timestamp_ms = 2000\<rparr> = Inl Arithmetic_Error
   \<and> can_claim never_vault \<lparr>timestamp_ms = 2000\<rparr> \<noteq> Inr False"
  by (simp add: create_vault_def never_vault_def can_claim_def add_u64_def)

text \<open>
  C10. At the boundary instant \<open>last_heartbeat + unlock_time_ms\<close>, and at no other time,
  \<open>time_until_claim\<close> returns 0 while \<open>can_claim\<close> returns false. Whenever \<open>can_claim\<close>
  returns true, \<open>time_until_claim\<close> returns 0, so away from the boundary the two agree:
  \<open>time_until_claim\<close> is 0 exactly when \<open>can_claim\<close> is true. When the sum fits in a
  \<open>u64\<close>, \<open>can_claim\<close> is whether the time is past it and \<open>time_until_claim\<close> is the
  sum less the time, 0 from the boundary on; when it does not fit, both abort.
\<close>

theorem boundary_instant:
  "((time_until_claim vault clock = Inr 0 \<and> can_claim vault clock = Inr False)
      \<longleftrightarrow> unat (timestamp_ms clock) = unat (last_heartbeat vault) + unat (unlock_time_ms vault))
   \<and> (can_claim vault clock = Inr True \<longrightarrow> time_until_claim vault clock = Inr 0)
   \<and> (unat (timestamp_ms clock) \<noteq> unat (last_heartbeat vault) + unat (unlock_time_ms vault) \<longrightarrow>
        (time_until_claim vault clock = Inr 0 \<longleftrightarrow> can_claim vault clock = Inr True))
   \<and> (unat (last_heartbeat vault) + unat (unlock_time_ms vault) < 2 ^ 64 \<longrightarrow>
        can_claim vault clock =
          Inr (unat (last_heartbeat vault) + unat (unlock_time_ms vault) < unat (timestamp_ms clock))
        \<and> (\<exists>w. time_until_claim vault clock = Inr w
              \<and> unat w = unat (last_heartbeat vault) + unat (unlock_time_ms vault)
                           - unat (timestamp_ms clock)))
   \<and> (\<not> unat (last_heartbeat vault) + unat (unlock_time_ms vault) < 2 ^ 64 \<longrightarrow>
        can_claim vault clock = Inl Arithmetic_Error
        \<and> time_until_claim vault clock = Inl Arithmetic_Error)"
proof (cases "unat (last_heartbeat vault) + unat (unlock_time_ms vault) < 2 ^ 64")
  case True
  obtain w where tu: "time_until_claim vault clock = Inr w"
    and w: "unat w = unat (last_heartbeat vault) + unat (unlock_time_ms vault)
                       - unat (timestamp_ms clock)"
    using time_until_claim_fits [OF True] by blast
  have cc: "can_claim vault clock =
      Inr (unat (last_heartbeat vault) + unat (unlock_time_ms vault) < unat (timestamp_ms clock))"
    by (rule can_claim_fits [OF True])
  have zero: "w = 0 \<longleftrightarrow>
      unat (last_heartbeat vault) + unat (unlock_time_ms vault) \<le> unat (timestamp_ms clock)"
    using w by (simp add: unat_eq_zero [symmetric])
  show ?thesis
    using True tu w cc zero by auto
next
  case False
  have "unat (timestamp_ms clock) < 2 ^ 64"
    by (rule clock_bound)
  then show ?thesis
    using False add_u64_overflows [OF False]
    by (auto simp add: time_until_claim_def can_claim_def)
qed

text \<open>
  The vault of the tests at its boundary instant 86401000, one millisecond later, and at
  time 2000, where 86399000 ms remain.
\<close>

theorem boundary_instant_witness:
  "time_until_claim test_vault \<lparr>timestamp_ms = 86401000\<rparr> = Inr 0
   \<and> can_claim test_vault \<lparr>timestamp_ms = 86401000\<rparr> = Inr False
   \<and> time_until_claim test_vault \<lparr>timestamp_ms = 86401001\<rparr> = Inr 0
   \<and> can_claim test_vault \<lparr>timestamp_ms = 86401001\<rparr> = Inr True
   \<and> can_claim test_vault \<lparr>timestamp_ms = 2000\<rparr> = Inr False
   \<and> time_until_claim test_vault \<lparr>timestamp_ms = 2000\<rparr> = Inr 86399000"
  using boundary_instant [of test_vault "\<lparr>timestamp_ms = 86401000\<rparr>"]
    boundary_instant [of test_vault "\<lparr>timestamp_ms = 86401001\<rparr>"]
    boundary_instant [of test_vault "\<lparr>timestamp_ms = 2000\<rparr>"]
  by (auto simp add: test_vault_def word_unat_eq_iff)

section \<open>Creation\<close>

text \<open>
  C2, as the code has it. \<open>create_vault\<close> takes the three shares as three arguments and
  checks nothing: every call succeeds, whatever \<open>unlock_time_ms\<close> is, 0 included. The vault
  holds exactly the three shares, the given unlock time, the clock's time as
  \<open>last_heartbeat\<close> and the coin's value as balance, and \<open>VaultCreated\<close> is emitted.
\<close>

theorem create_vault_total:
  "create_vault b u blob s3 s4 s5 coin clock ctx =
     Inr (\<lparr> uid = new_uid ctx, owner = sender ctx, beneficiary = b, unlock_time_ms = u,
            last_heartbeat = timestamp_ms clock, encrypted_blob_id = blob,
            locked_shares = [s3, s4, s5], balance = coin \<rparr>,
          \<lparr> events = [VaultCreated (new_uid ctx) (sender ctx) b u], transfers = [] \<rparr>)"
  by (simp add: create_vault_def Let_def)

text \<open>
  C2 as it is written asks creation to fail when \<open>unlock_time_ms = 0\<close>. The call of the
  tests with unlock time 0 creates a vault.
\<close>

theorem create_vault_counterexample:
  "create_vault 0xB 0 ''blob_id'' ''share_3'' ''share_4'' ''share_5'' 1000000000
     \<lparr>timestamp_ms = 1000\<rparr> \<lparr>sender = 0xA, new_uid = 1\<rparr>
     = Inr (instant_vault, \<lparr> events = [VaultCreated 1 0xA 0xB 0], transfers = [] \<rparr>)"
  by (simp add: create_vault_def instant_vault_def)

section \<open>After the claim\<close>

text \<open>
  C1 asks a claimed vault to be inert. In the code the vault of the tests, once claimed,
  is claimed a second time by the beneficiary (amount 0, the shares emitted again), takes
  a heartbeat from the owner, and is cancelled by the owner. No call of the module aborts
  with \<open>EAlreadyClaimed\<close>.
\<close>

theorem claimed_vault_still_live:
  "claim_legacy test_vault \<lparr>timestamp_ms = 86401001\<rparr> \<lparr>sender = 0xB, new_uid = 0\<rparr> =
     Inr (claimed_vault,
          \<lparr> events = [LegacyClaimed 0xB ''blob_id'' [''share_3'', ''share_4'', ''share_5'']
                        1000000000],
            transfers = [(1000000000, 0xB)] \<rparr>)
   \<and> claim_legacy claimed_vault \<lparr>timestamp_ms = 86401001\<rparr> \<lparr>sender = 0xB, new_uid = 0\<rparr> =
     Inr (claimed_vault,
          \<lparr> events = [LegacyClaimed 0xB ''blob_id'' [''share_3'', ''share_4'', ''share_5''] 0],
            transfers = [] \<rparr>)
   \<and> im_alive claimed_vault \<lparr>timestamp_ms = 86401002\<rparr> \<lparr>sender = 0xA, new_uid = 0\<rparr> =
     Inr (claimed_vault\<lparr>last_heartbeat := 86401002\<rparr>,
          \<lparr> events = [HeartbeatUpdated 1 86401002], transfers = [] \<rparr>)
   \<and> cancel_legacy claimed_vault \<lparr>sender = 0xA, new_uid = 0\<rparr> =
     Inr \<lparr> events = [VaultCancelled 1 0xA 0], transfers = [] \<rparr>"
  by (simp add: test_vault_def claimed_vault_def claim_legacy_def im_alive_def cancel_legacy_def
        add_u64_def balance_split_def)

section \<open>The payload round trip\<close>



section \<open>Recovery with too few shares\<close>

text \<open>
  C9. With two shares or fewer \<open>recoverKey\<close> throws its own error ("Minimum 3 shares
  required to recover key") whatever the library functions would do: they are not
  called.
\<close>

theorem recoverKey_insufficient:
  "length shares \<le> 2 \<Longrightarrow>
     recoverKey secrets_combine secrets_hex2str shares =
       Inl (Error ''Minimum 3 shares required to recover key'')"
  by (simp add: recoverKey_def)

text \<open>
  Two shares, with library functions that would return a value.
\<close>

theorem recoverKey_insufficient_witness:
  "length [''801aa'', ''802bb''] \<le> 2 \<and>
   recoverKey (\<lambda>xs. Inr (concat xs)) Inr [''801aa'', ''802bb''] =
     Inl (Error ''Minimum 3 shares required to recover key'')"
  using recoverKey_insufficient [of "[''801aa'', ''802bb'']" "\<lambda>xs. Inr (concat xs)" Inr]
  by simp

end
